theory Spec2Isabelle
  imports Main
begin

section \<open>Python values, exceptions and the outside world\<close>

text \<open>
  The values that flow through the pipeline are the values \<open>response.json()\<close> can
  produce and the dicts the code builds itself. A dict is an association list in
  insertion order; Python dicts hold a key once, and a lookup reads the first binding.
  A float is carried as its printed form: the code never computes with one.
\<close>

datatype json =
    JNull
  | JBool bool
  | JInt int
  | JFloat string
  | JStr string
  | JList "json list"
  | JDict "(string \<times> json) list"

type_synonym dict = "(string \<times> json) list"

text \<open>
  Exceptions are values: the class that the \<open>except\<close> clauses test and the text
  \<open>str(e)\<close>. \<open>RequestException\<close> stands for \<open>requests.RequestException\<close> and all
  its subclasses (\<open>HTTPError\<close>, \<open>ConnectionError\<close>, \<open>Timeout\<close>, and, since
  requests 2.27, the \<open>JSONDecodeError\<close> of \<open>Response.json\<close>); \<open>BotoError\<close> stands
  for whatever boto3 raises; \<open>PlainException\<close> is \<open>Exception(...)\<close> itself. All of
  them are subclasses of \<open>Exception\<close>.
\<close>

datatype exc_class =
  RequestException | KeyError | TypeError | AttributeError | BotoError | PlainException

datatype exc = Exc exc_class string

fun exc_class_of :: "exc \<Rightarrow> exc_class" where
  "exc_class_of (Exc c m) = c"

fun str_exc :: "exc \<Rightarrow> string" where
  "str_exc (Exc c m) = m"

text \<open>
  A \<open>requests.Response\<close>: the status line, the body as text, and what
  \<open>Response.json()\<close> makes of the body (\<open>Inl\<close> the text of its decode error).
\<close>

record response =
  status_code :: int
  reason :: string
  url :: string
  resp_text :: string
  resp_json :: "string + json"

text \<open>
  What \<open>requests.post\<close> or \<open>requests.get\<close> does: it raises a
  \<open>RequestException\<close> (timeout, connection error) with the given text, or it returns
  a response.
\<close>

datatype http_outcome = RequestFailed string | Responded response

text \<open>The module-level constants read from the process environment at import time.\<close>

record config =
  SPOTIFY_CLIENT_ID :: "string option"
  SPOTIFY_CLIENT_SECRET :: "string option"
  SPOTIFY_REFRESH_TOKEN :: "string option"
  RAW_S3_BUCKET_NAME :: "string option"
  AWS_REGION :: string

definition TRACKS_LIMIT :: int where
  "TRACKS_LIMIT = 50"

text \<open>
  Everything a run reads from outside the program.
  \<^item> \<open>posix_time\<close> is the clock, in seconds since the epoch, and \<open>utcoffset\<close> the
    offset in seconds of the process's local time zone at that instant.
  \<^item> \<open>token_endpoint\<close> is the outcome of the POST of lines 48-56. The request is
    determined by the client id, the client secret and the refresh token, so the outcome
    is a function of them.
  \<^item> \<open>recently_played_endpoint\<close> is the outcome of the GET of lines 85-90, a function
    of the access token (it determines the Authorization header) and the limit.
  \<^item> \<open>s3_put_fault bucket key\<close> is \<open>Some m\<close> when \<open>boto3.client\<close> or
    \<open>put_object\<close> raises for that bucket and key (a name boto3 refuses, the empty one
    among them, a missing bucket, a denied permission, a network failure), \<open>m\<close> being
    \<open>str(e)\<close>.
  \<^item> \<open>unset_bucket_error\<close> is the exception that \<open>put_object\<close> raises when
    the bucket is \<open>None\<close>; its class and text depend on the versions of botocore and
    of the interpreter.
  \<^item> \<open>json_dumps\<close> and \<open>json_dumps_indent2\<close> are \<open>json.dumps(x)\<close> and
    \<open>json.dumps(x, indent=2)\<close> of the standard library, left uninterpreted.
\<close>

record env =
  posix_time :: int
  utcoffset :: int
  token_endpoint :: "string option \<Rightarrow> string option \<Rightarrow> string option \<Rightarrow> http_outcome"
  recently_played_endpoint :: "json \<Rightarrow> int \<Rightarrow> http_outcome"
  s3_put_fault :: "string \<Rightarrow> string \<Rightarrow> string option"
  unset_bucket_error :: exc
  json_dumps :: "json \<Rightarrow> string"
  json_dumps_indent2 :: "json \<Rightarrow> string"

text \<open>The object store: bucket and key to the stored body and its content type.\<close>

record s3_object =
  body :: string
  content_type :: string

type_synonym s3_store = "string \<times> string \<Rightarrow> s3_object option"

definition get_object :: "s3_store \<Rightarrow> string \<Rightarrow> string \<Rightarrow> s3_object option" where
  "get_object s bucket key = s (bucket, key)"

section \<open>Library operations the code calls\<close>

subsection \<open>Decimal text of an integer\<close>

definition digit_char :: "nat \<Rightarrow> char" where
  "digit_char d = ''0123456789'' ! d"

function str_nat :: "nat \<Rightarrow> string" where
  "str_nat n = (if n < 10 then [digit_char n] else str_nat (n div 10) @ [digit_char (n mod 10)])"
  by pat_completeness auto
termination
  by (relation "measure id") auto

declare str_nat.simps [simp del]

definition str_int :: "int \<Rightarrow> string" where
  "str_int i = (if i < 0 then CHR ''-'' # str_nat (nat (- i)) else str_nat (nat i))"

definition zfill :: "nat \<Rightarrow> string \<Rightarrow> string" where
  "zfill w s = replicate (w - length s) CHR ''0'' @ s"

subsection \<open>The clock: \<open>datetime.now().strftime("%Y-%m-%d")\<close>\<close>

record date =
  year :: int
  month :: int
  day :: int

text \<open>
  The proleptic Gregorian date of a day number (days since 1970-01-01), by the usual
  era arithmetic: 400-year eras of 146097 days, years starting on 1 March.
\<close>

definition civil_from_days :: "int \<Rightarrow> date" where
  "civil_from_days z =
     (let z' = z + 719468;
          era = z' div 146097;
          doe = z' mod 146097;
          yoe = (doe - doe div 1460 + doe div 36524 - doe div 146096) div 365;
          doy = doe - (365 * yoe + yoe div 4 - yoe div 100);
          mp = (5 * doy + 2) div 153;
          d = doy - (153 * mp + 2) div 5 + 1;
          m = (if mp < 10 then mp + 3 else mp - 9);
          y = yoe + era * 400 + (if m \<le> 2 then 1 else 0)
      in \<lparr>year = y, month = m, day = d\<rparr>)"

text \<open>
  \<open>datetime.now()\<close> takes no time zone: it is the naive local time, the clock shifted
  by the offset of the process's zone. \<open>datetime.utcnow()\<close> is the clock unshifted.
  Only the date part is used.
\<close>

definition datetime_now :: "env \<Rightarrow> date" where
  "datetime_now e = civil_from_days ((posix_time e + utcoffset e) div 86400)"

definition datetime_utcnow :: "env \<Rightarrow> date" where
  "datetime_utcnow e = civil_from_days (posix_time e div 86400)"

definition strftime_Y_m_d :: "date \<Rightarrow> string" where
  "strftime_Y_m_d d =
     zfill 4 (str_int (year d)) @ ''-'' @ zfill 2 (str_int (month d)) @ ''-'' @
     zfill 2 (str_int (day d))"

subsection \<open>Responses\<close>

text \<open>
  \<open>Response.raise_for_status()\<close> raises \<open>HTTPError\<close> for a status from 400 to 599
  and returns for every other status.
\<close>

definition raise_for_status :: "response \<Rightarrow> exc + unit" where
  "raise_for_status r =
     (if 400 \<le> status_code r \<and> status_code r < 500 then
        Inl (Exc RequestException
              (str_int (status_code r) @ '' Client Error: '' @ reason r @ '' for url: '' @ url r))
      else if 500 \<le> status_code r \<and> status_code r < 600 then
        Inl (Exc RequestException
              (str_int (status_code r) @ '' Server Error: '' @ reason r @ '' for url: '' @ url r))
      else Inr ())"

definition response_json :: "response \<Rightarrow> exc + json" where
  "response_json r =
     (case resp_json r of Inl m \<Rightarrow> Inl (Exc RequestException m) | Inr j \<Rightarrow> Inr j)"

subsection \<open>Operations of the interpreter on values\<close>

fun type_name :: "json \<Rightarrow> string" where
  "type_name JNull = ''NoneType''"
| "type_name (JBool b) = ''bool''"
| "type_name (JInt i) = ''int''"
| "type_name (JFloat f) = ''float''"
| "type_name (JStr s) = ''str''"
| "type_name (JList xs) = ''list''"
| "type_name (JDict kvs) = ''dict''"

fun isinstance_dict :: "json \<Rightarrow> bool" where
  "isinstance_dict (JDict kvs) = True"
| "isinstance_dict v = False"

definition quoted :: "string \<Rightarrow> string" where
  "quoted s = CHR 0x27 # s @ [CHR 0x27]"

fun has_field :: "json \<Rightarrow> string \<Rightarrow> bool" where
  "has_field (JDict kvs) k = (map_of kvs k \<noteq> None)"
| "has_field v k = False"


text \<open>
  \<open>v[k]\<close> for a string key \<open>k\<close>: a dict gives the value or raises \<open>KeyError\<close>
  (whose text is the key's \<open>repr\<close>); every other value raises \<open>TypeError\<close>.
\<close>

fun getitem :: "json \<Rightarrow> string \<Rightarrow> exc + json" where
  "getitem (JDict kvs) k =
     (case map_of kvs k of Some v \<Rightarrow> Inr v | None \<Rightarrow> Inl (Exc KeyError (quoted k)))"
| "getitem (JList xs) k = Inl (Exc TypeError ''list indices must be integers or slices, not str'')"
| "getitem (JStr s) k = Inl (Exc TypeError (''string indices must be integers, not '' @ quoted ''str''))"
| "getitem v k = Inl (Exc TypeError (quoted (type_name v) @ '' object is not subscriptable''))"

text \<open>\<open>v.get(k, default)\<close>: only a dict has the method.\<close>

fun get_default :: "json \<Rightarrow> string \<Rightarrow> json \<Rightarrow> exc + json" where
  "get_default (JDict kvs) k d = Inr (case map_of kvs k of Some v \<Rightarrow> v | None \<Rightarrow> d)"
| "get_default v k d =
     Inl (Exc AttributeError (quoted (type_name v) @ '' object has no attribute '' @ quoted ''get''))"

text \<open>\<open>len(v)\<close>: a dict counts its keys, a list its elements, a string its characters.\<close>

fun len :: "json \<Rightarrow> exc + int" where
  "len (JList xs) = Inr (int (length xs))"
| "len (JStr s) = Inr (int (length s))"
| "len (JDict kvs) = Inr (int (length (remdups (map fst kvs))))"
| "len v = Inl (Exc TypeError (''object of type '' @ quoted (type_name v) @ '' has no len()''))"

text \<open>\<open>d[k] = v\<close> on a dict: an existing key keeps its place, a new one goes last.\<close>

fun setitem :: "dict \<Rightarrow> string \<Rightarrow> json \<Rightarrow> dict" where
  "setitem [] k v = [(k, v)]"
| "setitem ((k', v') # kvs) k v =
     (if k' = k then (k, v) # kvs else (k', v') # setitem kvs k v)"

text \<open>\<open>f"{x}"\<close> for a value that is a string or \<open>None\<close>.\<close>

fun format_opt :: "string option \<Rightarrow> string" where
  "format_opt None = ''None''"
| "format_opt (Some s) = s"

fun json_of_opt :: "string option \<Rightarrow> json" where
  "json_of_opt None = JNull"
| "json_of_opt (Some s) = JStr s"

section \<open>The Token Provider\<close>

text \<open>
  \<open>get_spotify_token\<close>, the same in both modules but for a \<open>print\<close>. The \<open>try\<close>
  covers the request and the reading of the response; its \<open>except\<close> turns a
  \<open>RequestException\<close> into a dict and lets every other exception through.
\<close>

definition get_spotify_token_body :: "config \<Rightarrow> env \<Rightarrow> exc + json" where
  "get_spotify_token_body cfg e =
     (case token_endpoint e (SPOTIFY_CLIENT_ID cfg) (SPOTIFY_CLIENT_SECRET cfg)
             (SPOTIFY_REFRESH_TOKEN cfg) of
        RequestFailed m \<Rightarrow> Inl (Exc RequestException m)
      | Responded resp \<Rightarrow>
          if status_code resp = 200 then
            (case response_json resp of
               Inl x \<Rightarrow> Inl x
             | Inr auth_data \<Rightarrow> getitem auth_data ''access_token'')
          else
            Inr (JDict [(''statusCode'', JInt (status_code resp)),
                        (''body'', JStr (resp_text resp))]))"

definition get_spotify_token :: "config \<Rightarrow> env \<Rightarrow> exc + json" where
  "get_spotify_token cfg e =
     (case get_spotify_token_body cfg e of
        Inl x \<Rightarrow>
          if exc_class_of x = RequestException then
            Inr (JDict [(''statusCode'', JInt 500),
                        (''body'', JStr (''Request failed: '' @ str_exc x))])
          else Inl x
      | Inr v \<Rightarrow> Inr v)"

section \<open>The Recent-Activity Fetcher\<close>

definition get_recent_tracks_body :: "env \<Rightarrow> json \<Rightarrow> exc + json" where
  "get_recent_tracks_body e access_token =
     (case recently_played_endpoint e access_token TRACKS_LIMIT of
        RequestFailed m \<Rightarrow> Inl (Exc RequestException m)
      | Responded resp \<Rightarrow>
          (case raise_for_status resp of
             Inl x \<Rightarrow> Inl x
           | Inr u \<Rightarrow> response_json resp))"

definition get_recent_tracks :: "env \<Rightarrow> json \<Rightarrow> exc + json" where
  "get_recent_tracks e access_token =
     (case get_recent_tracks_body e access_token of
        Inl x \<Rightarrow>
          if exc_class_of x = RequestException then
            Inl (Exc PlainException (''Failed to fetch recent tracks: '' @ str_exc x))
          else Inl x
      | Inr v \<Rightarrow> Inr v)"

section \<open>The Partitioned Writer\<close>

text \<open>
  The repository holds the pipeline twice. The two modules differ in the storage key
  (and in \<open>print\<close> calls, which change neither a result nor the store).
\<close>

datatype module = Lambda_function | Lambda_spotify_get_user_recent_played

fun storage_key :: "module \<Rightarrow> string \<Rightarrow> string" where
  "storage_key Lambda_function today_date =
     today_date @ ''/'' @ today_date @ ''_recent_tracks.json''"
| "storage_key Lambda_spotify_get_user_recent_played today_date =
     today_date @ ''/recent_tracks.json''"

text \<open>
  \<open>s3.put_object(Bucket=..., Key=..., Body=..., ContentType=...)\<close>. A bucket that
  is \<open>None\<close> always makes the call raise; otherwise the call fails as the outside
  world says, or stores the object, replacing what the key held.
\<close>

definition put_object ::
  "env \<Rightarrow> string option \<Rightarrow> string \<Rightarrow> string \<Rightarrow> string \<Rightarrow> s3_store \<Rightarrow> exc + s3_store" where
  "put_object e bucket key bdy ctype s =
     (case bucket of
        None \<Rightarrow> Inl (unset_bucket_error e)
      | Some b \<Rightarrow>
          (case s3_put_fault e b key of
             Some m \<Rightarrow> Inl (Exc BotoError m)
           | None \<Rightarrow> Inr (s((b, key) \<mapsto> \<lparr>body = bdy, content_type = ctype\<rparr>))))"

definition save_to_s3 ::
  "module \<Rightarrow> config \<Rightarrow> env \<Rightarrow> json \<Rightarrow> string \<Rightarrow> s3_store \<Rightarrow> exc + dict \<times> s3_store" where
  "save_to_s3 m cfg e data today_date s =
     (let key = storage_key m today_date in
      case put_object e (RAW_S3_BUCKET_NAME cfg) key (json_dumps_indent2 e data)
             ''application/json'' s of
        Inl x \<Rightarrow> Inl (Exc PlainException (''Failed to save to S3: '' @ str_exc x))
      | Inr s' \<Rightarrow>
          Inr ([(''statusCode'', JInt 200),
                (''body'', JStr (''Data saved to s3://'' @ format_opt (RAW_S3_BUCKET_NAME cfg) @
                                 ''/'' @ key))],
               s'))"

section \<open>The Orchestrator\<close>

text \<open>
  A run of the handler yields its return value, the calls it made to the three
  components, in order, and the store it leaves.
\<close>

datatype call =
    Call_get_spotify_token
  | Call_get_recent_tracks json
  | Call_save_to_s3 json string

record run =
  result :: json
  trace :: "call list"
  store :: s3_store

definition today_date_of :: "env \<Rightarrow> string" where
  "today_date_of e = strftime_Y_m_d (datetime_now e)"

text \<open>The \<open>except Exception\<close> clause of the handler.\<close>

definition handler_except :: "env \<Rightarrow> exc \<Rightarrow> json" where
  "handler_except e x =
     JDict [(''statusCode'', JInt 500),
            (''body'', JStr (json_dumps e (JDict [(''error'', JStr (str_exc x))])))]"

text \<open>\<open>len(recent_tracks.get('items', []))\<close>\<close>

definition tracks_count :: "json \<Rightarrow> exc + int" where
  "tracks_count recent_tracks =
     (case get_default recent_tracks ''items'' (JList []) of
        Inl x \<Rightarrow> Inl x
      | Inr items \<Rightarrow> len items)"

definition lambda_handler :: "module \<Rightarrow> config \<Rightarrow> env \<Rightarrow> json \<Rightarrow> json \<Rightarrow> s3_store \<Rightarrow> run" where
  "lambda_handler m cfg e event context s =
     (let today_date = today_date_of e in
      case get_spotify_token cfg e of
        Inl x \<Rightarrow>
          \<lparr>result = handler_except e x, trace = [Call_get_spotify_token], store = s\<rparr>
      | Inr access_token \<Rightarrow>
          if isinstance_dict access_token then
            \<lparr>result = access_token, trace = [Call_get_spotify_token], store = s\<rparr>
          else
            (case get_recent_tracks e access_token of
               Inl x \<Rightarrow>
                 \<lparr>result = handler_except e x,
                  trace = [Call_get_spotify_token, Call_get_recent_tracks access_token],
                  store = s\<rparr>
             | Inr recent_tracks \<Rightarrow>
                 (let calls = [Call_get_spotify_token, Call_get_recent_tracks access_token,
                               Call_save_to_s3 recent_tracks today_date] in
                  case save_to_s3 m cfg e recent_tracks today_date s of
                    Inl x \<Rightarrow> \<lparr>result = handler_except e x, trace = calls, store = s\<rparr>
                  | Inr (res, s') \<Rightarrow>
                      (case tracks_count recent_tracks of
                         Inl x \<Rightarrow> \<lparr>result = handler_except e x, trace = calls, store = s'\<rparr>
                       | Inr n \<Rightarrow>
                           \<lparr>result = JDict (setitem res ''metadata''
                                       (JDict [(''date'', JStr today_date),
                                               (''tracks_count'', JInt n),
                                               (''bucket'', json_of_opt (RAW_S3_BUCKET_NAME cfg))])),
                            trace = calls, store = s'\<rparr>))))"

section \<open>Concrete worlds for the examples\<close>

text \<open>
  A small serializer that stands in for \<open>json.dumps\<close> in the examples below: it
  writes strings without escapes and is meant for the texts that occur there. The
  theorems hold for every serializer.
\<close>

fun example_dumps :: "json \<Rightarrow> string"
  and example_dumps_items :: "json list \<Rightarrow> string"
  and example_dumps_members :: "(string \<times> json) list \<Rightarrow> string" where
  "example_dumps JNull = ''null''"
| "example_dumps (JBool b) = (if b then ''true'' else ''false'')"
| "example_dumps (JInt i) = str_int i"
| "example_dumps (JFloat f) = f"
| "example_dumps (JStr s) = CHR 0x22 # s @ [CHR 0x22]"
| "example_dumps (JList xs) = ''['' @ example_dumps_items xs @ '']''"
| "example_dumps (JDict kvs) = ''{'' @ example_dumps_members kvs @ ''}''"
| "example_dumps_items [] = []"
| "example_dumps_items [x] = example_dumps x"
| "example_dumps_items (x # y # xs) = example_dumps x @ '', '' @ example_dumps_items (y # xs)"
| "example_dumps_members [] = []"
| "example_dumps_members [(k, v)] = CHR 0x22 # k @ [CHR 0x22] @ '': '' @ example_dumps v"
| "example_dumps_members ((k, v) # kv # kvs) =
     CHR 0x22 # k @ [CHR 0x22] @ '': '' @ example_dumps v @ '', '' @
     example_dumps_members (kv # kvs)"

definition indent_of :: "nat \<Rightarrow> string" where
  "indent_of n = replicate (2 * n) CHR '' ''"

fun example_pretty :: "nat \<Rightarrow> json \<Rightarrow> string"
  and example_pretty_items :: "nat \<Rightarrow> json list \<Rightarrow> string"
  and example_pretty_members :: "nat \<Rightarrow> (string \<times> json) list \<Rightarrow> string" where
  "example_pretty n JNull = ''null''"
| "example_pretty n (JBool b) = (if b then ''true'' else ''false'')"
| "example_pretty n (JInt i) = str_int i"
| "example_pretty n (JFloat f) = f"
| "example_pretty n (JStr s) = CHR 0x22 # s @ [CHR 0x22]"
| "example_pretty n (JList []) = ''[]''"
| "example_pretty n (JList (x # xs)) =
     ''['' @ [CHR 0x0A] @ example_pretty_items (Suc n) (x # xs) @ [CHR 0x0A] @ indent_of n @ '']''"
| "example_pretty n (JDict []) = ''{}''"
| "example_pretty n (JDict (kv # kvs)) =
     ''{'' @ [CHR 0x0A] @ example_pretty_members (Suc n) (kv # kvs) @ [CHR 0x0A] @ indent_of n @ ''}''"
| "example_pretty_items n [] = []"
| "example_pretty_items n [x] = indent_of n @ example_pretty n x"
| "example_pretty_items n (x # y # xs) =
     indent_of n @ example_pretty n x @ '','' @ [CHR 0x0A] @ example_pretty_items n (y # xs)"
| "example_pretty_members n [] = []"
| "example_pretty_members n [(k, v)] =
     indent_of n @ CHR 0x22 # k @ [CHR 0x22] @ '': '' @ example_pretty n v"
| "example_pretty_members n ((k, v) # kv # kvs) =
     indent_of n @ CHR 0x22 # k @ [CHR 0x22] @ '': '' @ example_pretty n v @ '','' @ [CHR 0x0A] @
     example_pretty_members n (kv # kvs)"

definition example_config :: config where
  "example_config =
     \<lparr>SPOTIFY_CLIENT_ID = Some ''client-id'', SPOTIFY_CLIENT_SECRET = Some ''client-secret'',
      SPOTIFY_REFRESH_TOKEN = Some ''refresh-token'', RAW_S3_BUCKET_NAME = Some ''raw-bucket'',
      AWS_REGION = ''eu-north-1''\<rparr>"

text \<open>
  A world whose token endpoint and activity endpoint answer as given, whose clock
  shows 2024-01-15 12:34:56 UTC in a process running in UTC, and whose object store
  accepts every write.
\<close>

definition example_env :: "http_outcome \<Rightarrow> http_outcome \<Rightarrow> env" where
  "example_env tok act =
     \<lparr>posix_time = 1705322096, utcoffset = 0,
      token_endpoint = (\<lambda>cid secret refresh. tok),
      recently_played_endpoint = (\<lambda>access_token limit. act),
      s3_put_fault = (\<lambda>bucket key. None),
      unset_bucket_error =
        Exc TypeError (''expected string or bytes-like object, got '' @ quoted ''NoneType''),
      json_dumps = example_dumps,
      json_dumps_indent2 = example_pretty 0\<rparr>"

definition token_url :: string where
  "token_url = ''https://accounts.spotify.com/api/token''"

definition recently_played_url :: string where
  "recently_played_url = ''https://api.spotify.com/v1/me/player/recently-played?limit=50''"

definition token_granted :: response where
  "token_granted =
     \<lparr>status_code = 200, reason = ''OK'', url = token_url,
      resp_text = ''{'' @ [CHR 0x22] @ ''access_token'' @ [CHR 0x22] @ '': '' @
                  [CHR 0x22] @ ''BQD-token'' @ [CHR 0x22] @ ''}'',
      resp_json = Inr (JDict [(''access_token'', JStr ''BQD-token'')])\<rparr>"

definition token_refused :: response where
  "token_refused =
     \<lparr>status_code = 400, reason = ''Bad Request'', url = token_url,
      resp_text = ''invalid_grant'',
      resp_json = Inl ''Expecting value: line 1 column 1 (char 0)''\<rparr>"

definition token_without_field :: response where
  "token_without_field =
     \<lparr>status_code = 200, reason = ''OK'', url = token_url,
      resp_text = ''{'' @ [CHR 0x22] @ ''token_type'' @ [CHR 0x22] @ '': '' @
                  [CHR 0x22] @ ''Bearer'' @ [CHR 0x22] @ ''}'',
      resp_json = Inr (JDict [(''token_type'', JStr ''Bearer'')])\<rparr>"

definition example_payload :: json where
  "example_payload =
     JDict [(''items'', JList [JDict [(''track'', JDict [(''name'', JStr ''Shape of You'')])]]),
            (''limit'', JInt 50)]"

definition tracks_served :: response where
  "tracks_served =
     \<lparr>status_code = 200, reason = ''OK'', url = recently_played_url,
      resp_text = example_dumps example_payload,
      resp_json = Inr example_payload\<rparr>"

definition tracks_unauthorized :: response where
  "tracks_unauthorized =
     \<lparr>status_code = 401, reason = ''Unauthorized'', url = recently_played_url,
      resp_text = ''The access token expired'',
      resp_json = Inl ''Expecting value: line 1 column 1 (char 0)''\<rparr>"

definition token_with_object :: response where
  "token_with_object =
     \<lparr>status_code = 200, reason = ''OK'', url = token_url,
      resp_text = ''{'' @ [CHR 0x22] @ ''access_token'' @ [CHR 0x22] @ '': {}}'',
      resp_json = Inr (JDict [(''access_token'', JDict [])])\<rparr>"

definition token_list_body :: response where
  "token_list_body =
     \<lparr>status_code = 200, reason = ''OK'', url = token_url,
      resp_text = ''[1, 2]'',
      resp_json = Inr (JList [JInt 1, JInt 2])\<rparr>"

definition tracks_multiple_choices :: response where
  "tracks_multiple_choices =
     \<lparr>status_code = 300, reason = ''Multiple Choices'', url = recently_played_url,
      resp_text = example_dumps example_payload,
      resp_json = Inr example_payload\<rparr>"

definition second_payload :: json where
  "second_payload = JDict [(''items'', JList []), (''limit'', JInt 50)]"

definition tracks_served_later :: response where
  "tracks_served_later =
     \<lparr>status_code = 200, reason = ''OK'', url = recently_played_url,
      resp_text = example_dumps second_payload,
      resp_json = Inr second_payload\<rparr>"

text \<open>
  The same world at 2024-01-15 23:30:00 UTC, seen from a process whose zone is one hour
  ahead of UTC: its wall clock shows 2024-01-16 00:30:00.
\<close>

definition late_evening_env :: env where
  "late_evening_env =
     (example_env (Responded token_granted) (Responded tracks_served))
       \<lparr>posix_time := 1705361400, utcoffset := 3600\<rparr>"

definition empty_store :: s3_store where
  "empty_store = Map.empty"

definition no_event :: json where
  "no_event = JDict []"

section \<open>The Token Provider: results\<close>

lemma token_endpoint_example [simp]:
  "token_endpoint (example_env tok act) a b c = tok"
  by (simp add: example_env_def)

lemma recently_played_endpoint_example [simp]:
  "recently_played_endpoint (example_env tok act) t l = act"
  by (simp add: example_env_def)

text \<open>
  C9. When the token request fails at the network level (a \<open>RequestException\<close>:
  timeout, connection error), \<open>get_spotify_token\<close> does not raise: it returns the
  dict with \<open>statusCode\<close> 500 and the body \<open>Request failed: \<close> followed by the
  text of the error.
\<close>

theorem token_request_failure_is_returned:
  assumes "token_endpoint e (SPOTIFY_CLIENT_ID cfg) (SPOTIFY_CLIENT_SECRET cfg)
             (SPOTIFY_REFRESH_TOKEN cfg) = RequestFailed msg"
  shows "get_spotify_token cfg e =
           Inr (JDict [(''statusCode'', JInt 500),
                       (''body'', JStr (''Request failed: '' @ msg))])"
  using assms by (simp add: get_spotify_token_def get_spotify_token_body_def)

theorem token_request_failure_is_returned_witness:
  "token_endpoint (example_env (RequestFailed ''Read timed out.'') (Responded tracks_served))
     (SPOTIFY_CLIENT_ID example_config) (SPOTIFY_CLIENT_SECRET example_config)
     (SPOTIFY_REFRESH_TOKEN example_config) = RequestFailed ''Read timed out.'' \<and>
   get_spotify_token example_config
     (example_env (RequestFailed ''Read timed out.'') (Responded tracks_served)) =
     Inr (JDict [(''statusCode'', JInt 500),
                 (''body'', JStr ''Request failed: Read timed out.'')])"
  using token_request_failure_is_returned
          [of "example_env (RequestFailed ''Read timed out.'') (Responded tracks_served)"
              example_config "''Read timed out.''"]
  by simp




section \<open>The Orchestrator: results\<close>

text \<open>
  C1. When the token endpoint answers with a status other than 200,
  \<open>get_spotify_token\<close> returns the dict whose \<open>statusCode\<close> is that status and whose
  \<open>body\<close> is the text of the response, and \<open>lambda_handler\<close> returns that dict
  having called neither \<open>get_recent_tracks\<close> nor \<open>save_to_s3\<close>; the store is as
  it was.
\<close>

theorem token_refusal_short_circuits:
  assumes "token_endpoint e (SPOTIFY_CLIENT_ID cfg) (SPOTIFY_CLIENT_SECRET cfg)
             (SPOTIFY_REFRESH_TOKEN cfg) = Responded resp"
    and "status_code resp \<noteq> 200"
  shows "get_spotify_token cfg e =
           Inr (JDict [(''statusCode'', JInt (status_code resp)),
                       (''body'', JStr (resp_text resp))]) \<and>
         lambda_handler m cfg e event context s =
           \<lparr>result = JDict [(''statusCode'', JInt (status_code resp)),
                            (''body'', JStr (resp_text resp))],
            trace = [Call_get_spotify_token], store = s\<rparr>"
proof -
  have tok: "get_spotify_token cfg e =
           Inr (JDict [(''statusCode'', JInt (status_code resp)),
                       (''body'', JStr (resp_text resp))])"
    using assms by (simp add: get_spotify_token_def get_spotify_token_body_def)
  then show ?thesis
    by (simp add: lambda_handler_def)
qed

theorem token_refusal_short_circuits_witness:
  "token_endpoint (example_env (Responded token_refused) (Responded tracks_served))
     (SPOTIFY_CLIENT_ID example_config) (SPOTIFY_CLIENT_SECRET example_config)
     (SPOTIFY_REFRESH_TOKEN example_config) = Responded token_refused \<and>
   status_code token_refused \<noteq> 200 \<and>
   get_spotify_token example_config
     (example_env (Responded token_refused) (Responded tracks_served)) =
     Inr (JDict [(''statusCode'', JInt 400), (''body'', JStr ''invalid_grant'')]) \<and>
   lambda_handler Lambda_function example_config
     (example_env (Responded token_refused) (Responded tracks_served)) no_event no_event
     empty_store =
     \<lparr>result = JDict [(''statusCode'', JInt 400), (''body'', JStr ''invalid_grant'')],
      trace = [Call_get_spotify_token], store = empty_store\<rparr>"
  using token_refusal_short_circuits
          [of "example_env (Responded token_refused) (Responded tracks_served)"
              example_config token_refused Lambda_function no_event no_event empty_store]
  by (simp add: token_refused_def)

lemma error_body_example:
  "example_dumps (JDict [(''error'', JStr (quoted ''access_token''))]) =
     ''{'' @ [CHR 0x22] @ ''error'' @ [CHR 0x22] @ '': '' @ [CHR 0x22, CHR 0x27] @
     ''access_token'' @ [CHR 0x27, CHR 0x22] @ ''}''"
  by (simp add: quoted_def)

text \<open>
  A value has a field when it is a dict that holds the key; the subscript raises
  exactly on the values that do not have the field.
\<close>

lemma getitem_raises_iff: "(\<exists>x. getitem v k = Inl x) \<longleftrightarrow> \<not> has_field v k"
  by (cases v) (auto split: option.splits)

text \<open>
  C10, as the code has it. When the token endpoint answers with status 200 and a JSON
  body without an \<open>access_token\<close> field, the subscript in \<open>get_spotify_token\<close>
  raises: \<open>KeyError\<close> when the body is a JSON object, \<open>TypeError\<close> when it is any
  other JSON value. The \<open>except\<close> clause catches neither; the handler's catch-all turns
  the exception into the result with \<open>statusCode\<close> 500 whose body is the JSON text of
  \<open>{'error': str(e)}\<close>, and neither the Fetcher nor the Writer is called.
\<close>

theorem token_without_field_raises:
  assumes "token_endpoint e (SPOTIFY_CLIENT_ID cfg) (SPOTIFY_CLIENT_SECRET cfg)
             (SPOTIFY_REFRESH_TOKEN cfg) = Responded resp"
    and "status_code resp = 200"
    and "resp_json resp = Inr auth_data"
    and "getitem auth_data ''access_token'' = Inl x"
  shows "\<not> has_field auth_data ''access_token'' \<and>
         get_spotify_token cfg e = Inl x \<and>
         exc_class_of x = (if isinstance_dict auth_data then KeyError else TypeError) \<and>
         (isinstance_dict auth_data \<longrightarrow> x = Exc KeyError (quoted ''access_token'')) \<and>
         lambda_handler m cfg e event context s =
           \<lparr>result = JDict [(''statusCode'', JInt 500),
                            (''body'', JStr (json_dumps e (JDict [(''error'', JStr (str_exc x))])))],
            trace = [Call_get_spotify_token], store = s\<rparr>"
proof -
  have nofield: "\<not> has_field auth_data ''access_token''"
    using assms(4) getitem_raises_iff by blast
  have cls: "exc_class_of x = (if isinstance_dict auth_data then KeyError else TypeError)"
    using assms(4) by (cases auth_data) (auto split: option.splits)
  have key: "isinstance_dict auth_data \<longrightarrow> x = Exc KeyError (quoted ''access_token'')"
    using assms(4) by (cases auth_data) (auto split: option.splits)
  have uncaught: "exc_class_of x \<noteq> RequestException"
    using cls by (simp split: if_splits)
  have tok: "get_spotify_token cfg e = Inl x"
    using assms uncaught
    by (simp add: get_spotify_token_def get_spotify_token_body_def response_json_def)
  have run: "lambda_handler m cfg e event context s =
           \<lparr>result = JDict [(''statusCode'', JInt 500),
                            (''body'', JStr (json_dumps e (JDict [(''error'', JStr (str_exc x))])))],
            trace = [Call_get_spotify_token], store = s\<rparr>"
    using tok by (simp add: lambda_handler_def handler_except_def)
  show ?thesis
    using nofield cls key tok run by blast
qed

theorem token_without_field_raises_witness:
  "token_endpoint (example_env (Responded token_without_field) (Responded tracks_served))
     (SPOTIFY_CLIENT_ID example_config) (SPOTIFY_CLIENT_SECRET example_config)
     (SPOTIFY_REFRESH_TOKEN example_config) = Responded token_without_field \<and>
   status_code token_without_field = 200 \<and>
   resp_json token_without_field = Inr (JDict [(''token_type'', JStr ''Bearer'')]) \<and>
   getitem (JDict [(''token_type'', JStr ''Bearer'')]) ''access_token'' =
     Inl (Exc KeyError (quoted ''access_token'')) \<and>
   isinstance_dict (JDict [(''token_type'', JStr ''Bearer'')]) \<and>
   get_spotify_token example_config
     (example_env (Responded token_without_field) (Responded tracks_served)) =
     Inl (Exc KeyError (quoted ''access_token'')) \<and>
   lambda_handler Lambda_function example_config
     (example_env (Responded token_without_field) (Responded tracks_served)) no_event no_event
     empty_store =
     \<lparr>result = JDict [(''statusCode'', JInt 500),
                       (''body'', JStr (''{'' @ [CHR 0x22] @ ''error'' @ [CHR 0x22] @ '': '' @
                          [CHR 0x22, CHR 0x27] @ ''access_token'' @ [CHR 0x27, CHR 0x22] @ ''}''))],
      trace = [Call_get_spotify_token], store = empty_store\<rparr>"
  using token_without_field_raises
          [of "example_env (Responded token_without_field) (Responded tracks_served)"
              example_config token_without_field "JDict [(''token_type'', JStr ''Bearer'')]"
              "Exc KeyError (quoted ''access_token'')"
              Lambda_function no_event no_event empty_store]
  by (simp add: token_without_field_def example_env_def quoted_def)

text \<open>
  C10 as stated fails when the body is JSON but not an object: the 200 body
  \<open>[1, 2]\<close> has no \<open>access_token\<close> field, and the subscript raises
  \<open>TypeError\<close>, not \<open>KeyError\<close>.
\<close>

theorem token_list_body_is_type_error_counterexample:
  "token_endpoint (example_env (Responded token_list_body) (Responded tracks_served))
     (SPOTIFY_CLIENT_ID example_config) (SPOTIFY_CLIENT_SECRET example_config)
     (SPOTIFY_REFRESH_TOKEN example_config) = Responded token_list_body \<and>
   status_code token_list_body = 200 \<and>
   resp_json token_list_body = Inr (JList [JInt 1, JInt 2]) \<and>
   \<not> has_field (JList [JInt 1, JInt 2]) ''access_token'' \<and>
   get_spotify_token example_config
     (example_env (Responded token_list_body) (Responded tracks_served)) =
     Inl (Exc TypeError ''list indices must be integers or slices, not str'') \<and>
   exc_class_of (Exc TypeError ''list indices must be integers or slices, not str'') \<noteq> KeyError"
  by (simp add: get_spotify_token_def get_spotify_token_body_def token_list_body_def
      response_json_def)

section \<open>Running the examples\<close>

lemma example_env_sel [simp]:
  "posix_time (example_env tok act) = 1705322096"
  "utcoffset (example_env tok act) = 0"
  "s3_put_fault (example_env tok act) b k = None"
  "json_dumps (example_env tok act) = example_dumps"
  "json_dumps_indent2 (example_env tok act) = example_pretty 0"
  by (simp_all add: example_env_def)

lemma late_evening_sel [simp]:
  "posix_time late_evening_env = 1705361400"
  "utcoffset late_evening_env = 3600"
  "token_endpoint late_evening_env a b c = Responded token_granted"
  "recently_played_endpoint late_evening_env t l = Responded tracks_served"
  "s3_put_fault late_evening_env bk k = None"
  "json_dumps late_evening_env = example_dumps"
  "json_dumps_indent2 late_evening_env = example_pretty 0"
  by (simp_all add: late_evening_env_def example_env_def)

lemma bucket_example [simp]: "RAW_S3_BUCKET_NAME example_config = Some ''raw-bucket''"
  by (simp add: example_config_def)

lemma today_example: "today_date_of (example_env tok act) = ''2024-01-15''"
proof -
  have "strftime_Y_m_d (civil_from_days ((1705322096 + 0) div 86400)) = ''2024-01-15''"
    by code_simp
  then show ?thesis
    by (simp add: today_date_of_def datetime_now_def)
qed

lemma today_late_evening: "today_date_of late_evening_env = ''2024-01-16''"
proof -
  have "strftime_Y_m_d (civil_from_days ((1705361400 + 3600) div 86400)) = ''2024-01-16''"
    by code_simp
  then show ?thesis
    by (simp add: today_date_of_def datetime_now_def)
qed

lemma utc_late_evening: "strftime_Y_m_d (datetime_utcnow late_evening_env) = ''2024-01-15''"
proof -
  have "strftime_Y_m_d (civil_from_days (1705361400 div 86400)) = ''2024-01-15''"
    by code_simp
  then show ?thesis
    by (simp add: datetime_utcnow_def)
qed

lemma utc_example:
  "strftime_Y_m_d (datetime_utcnow (example_env tok act)) = ''2024-01-15''"
proof -
  have "strftime_Y_m_d (civil_from_days (1705322096 div 86400)) = ''2024-01-15''"
    by code_simp
  then show ?thesis
    by (simp add: datetime_utcnow_def)
qed

lemma token_granted_example:
  "token_endpoint e (SPOTIFY_CLIENT_ID cfg) (SPOTIFY_CLIENT_SECRET cfg) (SPOTIFY_REFRESH_TOKEN cfg)
     = Responded token_granted \<Longrightarrow>
   get_spotify_token cfg e = Inr (JStr ''BQD-token'')"
  by (simp add: get_spotify_token_def get_spotify_token_body_def token_granted_def
      response_json_def)

lemma tracks_served_example:
  "recently_played_endpoint e tok TRACKS_LIMIT = Responded tracks_served \<Longrightarrow>
   get_recent_tracks e tok = Inr example_payload"
  by (simp add: get_recent_tracks_def get_recent_tracks_body_def tracks_served_def
      raise_for_status_def response_json_def)

lemma tracks_served_later_example:
  "recently_played_endpoint e tok TRACKS_LIMIT = Responded tracks_served_later \<Longrightarrow>
   get_recent_tracks e tok = Inr second_payload"
  by (simp add: get_recent_tracks_def get_recent_tracks_body_def tracks_served_later_def
      raise_for_status_def response_json_def)

lemma tracks_multiple_choices_example:
  "recently_played_endpoint e tok TRACKS_LIMIT = Responded tracks_multiple_choices \<Longrightarrow>
   get_recent_tracks e tok = Inr example_payload"
  by (simp add: get_recent_tracks_def get_recent_tracks_body_def tracks_multiple_choices_def
      raise_for_status_def response_json_def)

lemma tracks_count_example: "tracks_count example_payload = Inr 1"
  by (simp add: tracks_count_def example_payload_def)

lemma tracks_count_second: "tracks_count second_payload = Inr 0"
  by (simp add: tracks_count_def second_payload_def)

text \<open>The run in which everything succeeds, from any store and in either module.\<close>

lemma example_run:
  "lambda_handler m example_config
     (example_env (Responded token_granted) (Responded tracks_served)) event context s =
   \<lparr>result = JDict [(''statusCode'', JInt 200),
                     (''body'', JStr (''Data saved to s3://raw-bucket/'' @
                                      storage_key m ''2024-01-15'')),
                     (''metadata'', JDict [(''date'', JStr ''2024-01-15''),
                                           (''tracks_count'', JInt 1),
                                           (''bucket'', JStr ''raw-bucket'')])],
    trace = [Call_get_spotify_token, Call_get_recent_tracks (JStr ''BQD-token''),
             Call_save_to_s3 example_payload ''2024-01-15''],
    store = s((''raw-bucket'', storage_key m ''2024-01-15'') \<mapsto>
              \<lparr>body = example_pretty 0 example_payload, content_type = ''application/json''\<rparr>)\<rparr>"
  by (simp add: lambda_handler_def today_example token_granted_example tracks_served_example
      tracks_count_example save_to_s3_def put_object_def Let_def)

lemma example_run_later:
  "lambda_handler m example_config
     (example_env (Responded token_granted) (Responded tracks_served_later)) event context s =
   \<lparr>result = JDict [(''statusCode'', JInt 200),
                     (''body'', JStr (''Data saved to s3://raw-bucket/'' @
                                      storage_key m ''2024-01-15'')),
                     (''metadata'', JDict [(''date'', JStr ''2024-01-15''),
                                           (''tracks_count'', JInt 0),
                                           (''bucket'', JStr ''raw-bucket'')])],
    trace = [Call_get_spotify_token, Call_get_recent_tracks (JStr ''BQD-token''),
             Call_save_to_s3 second_payload ''2024-01-15''],
    store = s((''raw-bucket'', storage_key m ''2024-01-15'') \<mapsto>
              \<lparr>body = example_pretty 0 second_payload, content_type = ''application/json''\<rparr>)\<rparr>"
  by (simp add: lambda_handler_def today_example token_granted_example
      tracks_served_later_example tracks_count_second save_to_s3_def put_object_def Let_def)

lemma late_evening_run_trace:
  "trace (lambda_handler Lambda_function example_config late_evening_env
            no_event no_event empty_store) =
     [Call_get_spotify_token, Call_get_recent_tracks (JStr ''BQD-token''),
      Call_save_to_s3 example_payload ''2024-01-16'']"
  by (simp add: lambda_handler_def today_late_evening token_granted_example
      tracks_served_example tracks_count_example save_to_s3_def put_object_def Let_def)

lemma multiple_choices_run:
  "lambda_handler m example_config
     (example_env (Responded token_granted) (Responded tracks_multiple_choices)) event context s =
   \<lparr>result = JDict [(''statusCode'', JInt 200),
                     (''body'', JStr (''Data saved to s3://raw-bucket/'' @
                                      storage_key m ''2024-01-15'')),
                     (''metadata'', JDict [(''date'', JStr ''2024-01-15''),
                                           (''tracks_count'', JInt 1),
                                           (''bucket'', JStr ''raw-bucket'')])],
    trace = [Call_get_spotify_token, Call_get_recent_tracks (JStr ''BQD-token''),
             Call_save_to_s3 example_payload ''2024-01-15''],
    store = s((''raw-bucket'', storage_key m ''2024-01-15'') \<mapsto>
              \<lparr>body = example_pretty 0 example_payload, content_type = ''application/json''\<rparr>)\<rparr>"
  by (simp add: lambda_handler_def today_example token_granted_example
      tracks_multiple_choices_example tracks_count_example save_to_s3_def put_object_def Let_def)

lemma error_401_text: "str_int 401 = ''401''"
  by code_simp

lemma save_to_s3_example:
  "save_to_s3 m example_config (example_env tok act) example_payload ''2024-01-15'' empty_store =
     Inr ([(''statusCode'', JInt 200),
           (''body'', JStr (''Data saved to s3://raw-bucket/'' @ storage_key m ''2024-01-15''))],
          empty_store((''raw-bucket'', storage_key m ''2024-01-15'') \<mapsto>
            \<lparr>body = example_pretty 0 example_payload, content_type = ''application/json''\<rparr>))"
  by (simp add: save_to_s3_def put_object_def Let_def)

text \<open>What the stand-in serializer stores for the example payload.\<close>

lemma example_pretty_text:
  "example_pretty 0 example_payload =
     ''{'' @ [CHR 0x0A] @
     ''  '' @ [CHR 0x22] @ ''items'' @ [CHR 0x22] @ '': ['' @ [CHR 0x0A] @
     ''    {'' @ [CHR 0x0A] @
     ''      '' @ [CHR 0x22] @ ''track'' @ [CHR 0x22] @ '': {'' @ [CHR 0x0A] @
     ''        '' @ [CHR 0x22] @ ''name'' @ [CHR 0x22] @ '': '' @
                    [CHR 0x22] @ ''Shape of You'' @ [CHR 0x22] @ [CHR 0x0A] @
     ''      }'' @ [CHR 0x0A] @
     ''    }'' @ [CHR 0x0A] @
     ''  ],'' @ [CHR 0x0A] @
     ''  '' @ [CHR 0x22] @ ''limit'' @ [CHR 0x22] @ '': 50'' @ [CHR 0x0A] @
     ''}''"
  by code_simp

section \<open>Facts about the Writer and the handler\<close>

lemma save_to_s3_Inr:
  assumes "save_to_s3 m cfg e data d s = Inr (res, s')"
  shows "\<exists>b. RAW_S3_BUCKET_NAME cfg = Some b \<and> s3_put_fault e b (storage_key m d) = None \<and>
             res = [(''statusCode'', JInt 200),
                    (''body'', JStr (''Data saved to s3://'' @ b @ ''/'' @ storage_key m d))] \<and>
             s' = s((b, storage_key m d) \<mapsto>
                     \<lparr>body = json_dumps_indent2 e data, content_type = ''application/json''\<rparr>)"
  using assms
  by (auto simp: save_to_s3_def put_object_def Let_def split: option.splits sum.splits)

text \<open>
  A run that called the Writer and returned status 200 is a run in which all three
  components succeeded.
\<close>

lemma handler_success:
  assumes "Call_save_to_s3 payload d \<in> set (trace (lambda_handler m cfg e event context s))"
    and "getitem (result (lambda_handler m cfg e event context s)) ''statusCode'' = Inr (JInt 200)"
  shows "\<exists>tok res s' n. get_spotify_token cfg e = Inr tok \<and> \<not> isinstance_dict tok \<and>
           get_recent_tracks e tok = Inr payload \<and> d = today_date_of e \<and>
           save_to_s3 m cfg e payload d s = Inr (res, s') \<and>
           tracks_count payload = Inr n \<and>
           lambda_handler m cfg e event context s =
             \<lparr>result = JDict (setitem res ''metadata''
                         (JDict [(''date'', JStr d), (''tracks_count'', JInt n),
                                 (''bucket'', json_of_opt (RAW_S3_BUCKET_NAME cfg))])),
              trace = [Call_get_spotify_token, Call_get_recent_tracks tok,
                       Call_save_to_s3 payload d],
              store = s'\<rparr>"
  using assms
  by (auto simp: lambda_handler_def Let_def handler_except_def
           split: sum.splits if_splits prod.splits)

lemma handler_success_store:
  assumes "Call_save_to_s3 payload d \<in> set (trace (lambda_handler m cfg e event context s))"
    and "getitem (result (lambda_handler m cfg e event context s)) ''statusCode'' = Inr (JInt 200)"
  shows "\<exists>tok b. get_spotify_token cfg e = Inr tok \<and> get_recent_tracks e tok = Inr payload \<and>
           d = today_date_of e \<and> RAW_S3_BUCKET_NAME cfg = Some b \<and>
           store (lambda_handler m cfg e event context s) =
             s((b, storage_key m d) \<mapsto>
                \<lparr>body = json_dumps_indent2 e payload, content_type = ''application/json''\<rparr>)"
proof -
  from handler_success [OF assms] obtain tok res s' where
    h: "get_spotify_token cfg e = Inr tok" "get_recent_tracks e tok = Inr payload"
       "d = today_date_of e" "save_to_s3 m cfg e payload d s = Inr (res, s')"
       "store (lambda_handler m cfg e event context s) = s'"
    by auto
  from save_to_s3_Inr [OF h(4)] obtain b where
    "RAW_S3_BUCKET_NAME cfg = Some b"
    "s' = s((b, storage_key m d) \<mapsto>
             \<lparr>body = json_dumps_indent2 e payload, content_type = ''application/json''\<rparr>)"
    by auto
  with h show ?thesis by auto
qed

text \<open>
  C2. In every successful run (the Writer was called with \<open>payload\<close> and the handler
  returned status 200), \<open>payload\<close> is what \<open>get_recent_tracks\<close> returned, and the
  object read back from the store at the run's key is \<open>json.dumps(payload, indent=2)\<close>
  with content type \<open>application/json\<close>. This holds in both modules.
\<close>

theorem stored_object_is_pretty_printed_payload:
  assumes "Call_save_to_s3 payload d \<in> set (trace (lambda_handler m cfg e event context s))"
    and "getitem (result (lambda_handler m cfg e event context s)) ''statusCode'' = Inr (JInt 200)"
  shows "\<exists>tok b. get_spotify_token cfg e = Inr tok \<and> get_recent_tracks e tok = Inr payload \<and>
           RAW_S3_BUCKET_NAME cfg = Some b \<and>
           get_object (store (lambda_handler m cfg e event context s)) b (storage_key m d) =
             Some \<lparr>body = json_dumps_indent2 e payload, content_type = ''application/json''\<rparr>"
proof -
  from handler_success_store [OF assms] obtain tok b where
    "get_spotify_token cfg e = Inr tok" "get_recent_tracks e tok = Inr payload"
    "RAW_S3_BUCKET_NAME cfg = Some b"
    "store (lambda_handler m cfg e event context s) =
       s((b, storage_key m d) \<mapsto>
          \<lparr>body = json_dumps_indent2 e payload, content_type = ''application/json''\<rparr>)"
    by auto
  then show ?thesis
    by (auto simp: get_object_def)
qed

theorem stored_object_is_pretty_printed_payload_witness:
  "Call_save_to_s3 example_payload ''2024-01-15'' \<in>
     set (trace (lambda_handler Lambda_function example_config
            (example_env (Responded token_granted) (Responded tracks_served))
            no_event no_event empty_store)) \<and>
   getitem (result (lambda_handler Lambda_function example_config
            (example_env (Responded token_granted) (Responded tracks_served))
            no_event no_event empty_store)) ''statusCode'' = Inr (JInt 200) \<and>
   get_recent_tracks (example_env (Responded token_granted) (Responded tracks_served))
     (JStr ''BQD-token'') = Inr example_payload \<and>
   get_object (store (lambda_handler Lambda_function example_config
            (example_env (Responded token_granted) (Responded tracks_served))
            no_event no_event empty_store))
     ''raw-bucket'' ''2024-01-15/2024-01-15_recent_tracks.json'' =
     Some \<lparr>body = example_pretty 0 example_payload, content_type = ''application/json''\<rparr>"
  using stored_object_is_pretty_printed_payload
          [of example_payload "''2024-01-15''" Lambda_function example_config
              "example_env (Responded token_granted) (Responded tracks_served)"
              no_event no_event empty_store]
  by (simp add: example_run tracks_served_example get_object_def)

text \<open>
  C3, as the code has it. The Writer of \<open>get_spotify_api_data/lambda_function.py\<close>
  stores under \<open><d>/<d>_recent_tracks.json\<close>; the Writer of
  \<open>lambda_spotify_get_user_recent_played.py\<close> stores under
  \<open><d>/recent_tracks.json\<close>. Called with \<open>2024-01-15\<close>, the first writes
  \<open>2024-01-15/2024-01-15_recent_tracks.json\<close>.
\<close>

theorem storage_key_by_module:
  assumes "save_to_s3 m cfg e data d s = Inr (res, s')"
  shows "\<exists>b. RAW_S3_BUCKET_NAME cfg = Some b \<and>
             s' = s((b, (case m of
                           Lambda_function \<Rightarrow> d @ ''/'' @ d @ ''_recent_tracks.json''
                         | Lambda_spotify_get_user_recent_played \<Rightarrow> d @ ''/recent_tracks.json''))
                    \<mapsto> \<lparr>body = json_dumps_indent2 e data, content_type = ''application/json''\<rparr>)"
proof -
  from save_to_s3_Inr [OF assms] obtain b where
    "RAW_S3_BUCKET_NAME cfg = Some b"
    "s' = s((b, storage_key m d) \<mapsto>
             \<lparr>body = json_dumps_indent2 e data, content_type = ''application/json''\<rparr>)"
    by auto
  then show ?thesis
    by (cases m) auto
qed

theorem storage_key_by_module_witness:
  "save_to_s3 Lambda_function example_config
     (example_env (Responded token_granted) (Responded tracks_served))
     example_payload ''2024-01-15'' empty_store =
     Inr ([(''statusCode'', JInt 200),
           (''body'', JStr ''Data saved to s3://raw-bucket/2024-01-15/2024-01-15_recent_tracks.json'')],
          empty_store((''raw-bucket'', ''2024-01-15/2024-01-15_recent_tracks.json'') \<mapsto>
            \<lparr>body = example_pretty 0 example_payload, content_type = ''application/json''\<rparr>)) \<and>
   RAW_S3_BUCKET_NAME example_config = Some ''raw-bucket'' \<and>
   get_object
     (empty_store((''raw-bucket'', ''2024-01-15/2024-01-15_recent_tracks.json'') \<mapsto>
        \<lparr>body = example_pretty 0 example_payload, content_type = ''application/json''\<rparr>))
     ''raw-bucket'' ''2024-01-15/2024-01-15_recent_tracks.json'' =
     Some \<lparr>body = example_pretty 0 example_payload, content_type = ''application/json''\<rparr>"
  using storage_key_by_module
          [of Lambda_function example_config
              "example_env (Responded token_granted) (Responded tracks_served)"
              example_payload "''2024-01-15''" empty_store
              "[(''statusCode'', JInt 200),
                (''body'', JStr ''Data saved to s3://raw-bucket/2024-01-15/2024-01-15_recent_tracks.json'')]"
              "empty_store((''raw-bucket'', ''2024-01-15/2024-01-15_recent_tracks.json'') \<mapsto>
                 \<lparr>body = example_pretty 0 example_payload, content_type = ''application/json''\<rparr>)"]
  by (simp add: save_to_s3_example get_object_def)

text \<open>
  C3 as stated fails for the second Writer: called with \<open>2024-01-15\<close> it stores the
  object under \<open>2024-01-15/recent_tracks.json\<close> and nothing under
  \<open>2024-01-15/2024-01-15_recent_tracks.json\<close>.
\<close>

theorem second_writer_key_counterexample:
  "save_to_s3 Lambda_spotify_get_user_recent_played example_config
     (example_env (Responded token_granted) (Responded tracks_served))
     example_payload ''2024-01-15'' empty_store =
     Inr ([(''statusCode'', JInt 200),
           (''body'', JStr ''Data saved to s3://raw-bucket/2024-01-15/recent_tracks.json'')],
          empty_store((''raw-bucket'', ''2024-01-15/recent_tracks.json'') \<mapsto>
            \<lparr>body = example_pretty 0 example_payload, content_type = ''application/json''\<rparr>)) \<and>
   get_object
     (empty_store((''raw-bucket'', ''2024-01-15/recent_tracks.json'') \<mapsto>
        \<lparr>body = example_pretty 0 example_payload, content_type = ''application/json''\<rparr>))
     ''raw-bucket'' ''2024-01-15/2024-01-15_recent_tracks.json'' = None"
proof (rule conjI)
  show "save_to_s3 Lambda_spotify_get_user_recent_played example_config
     (example_env (Responded token_granted) (Responded tracks_served))
     example_payload ''2024-01-15'' empty_store =
     Inr ([(''statusCode'', JInt 200),
           (''body'', JStr ''Data saved to s3://raw-bucket/2024-01-15/recent_tracks.json'')],
          empty_store((''raw-bucket'', ''2024-01-15/recent_tracks.json'') \<mapsto>
            \<lparr>body = example_pretty 0 example_payload, content_type = ''application/json''\<rparr>))"
    by (simp add: save_to_s3_example)
  show "get_object
     (empty_store((''raw-bucket'', ''2024-01-15/recent_tracks.json'') \<mapsto>
        \<lparr>body = example_pretty 0 example_payload, content_type = ''application/json''\<rparr>))
     ''raw-bucket'' ''2024-01-15/2024-01-15_recent_tracks.json'' = None"
    by (simp add: get_object_def empty_store_def)
qed

text \<open>
  C7. Two successful runs of the same module on the same calendar day (both pass the
  same date \<open>d\<close> to the Writer), the second starting from the store the first left:
  both write the key \<open>storage_key m d\<close>. After the first run the key holds the first
  payload; after the second the store differs from the initial one at that key only,
  and the key holds the second payload. The second run overwrites the first.
\<close>

theorem same_day_runs_overwrite:
  assumes "Call_save_to_s3 p1 d \<in> set (trace (lambda_handler m cfg e1 ev1 ctx1 s))"
    and "getitem (result (lambda_handler m cfg e1 ev1 ctx1 s)) ''statusCode'' = Inr (JInt 200)"
    and "Call_save_to_s3 p2 d \<in>
           set (trace (lambda_handler m cfg e2 ev2 ctx2 (store (lambda_handler m cfg e1 ev1 ctx1 s))))"
    and "getitem (result (lambda_handler m cfg e2 ev2 ctx2 (store (lambda_handler m cfg e1 ev1 ctx1 s))))
           ''statusCode'' = Inr (JInt 200)"
  shows "\<exists>b. RAW_S3_BUCKET_NAME cfg = Some b \<and>
             get_object (store (lambda_handler m cfg e1 ev1 ctx1 s)) b (storage_key m d) =
               Some \<lparr>body = json_dumps_indent2 e1 p1, content_type = ''application/json''\<rparr> \<and>
             store (lambda_handler m cfg e2 ev2 ctx2 (store (lambda_handler m cfg e1 ev1 ctx1 s))) =
               s((b, storage_key m d) \<mapsto>
                  \<lparr>body = json_dumps_indent2 e2 p2, content_type = ''application/json''\<rparr>)"
proof -
  from handler_success_store [OF assms(1,2)] obtain b where
    b: "RAW_S3_BUCKET_NAME cfg = Some b"
    and s1: "store (lambda_handler m cfg e1 ev1 ctx1 s) =
               s((b, storage_key m d) \<mapsto>
                  \<lparr>body = json_dumps_indent2 e1 p1, content_type = ''application/json''\<rparr>)"
    by auto
  from handler_success_store [OF assms(3,4)] b have
    s2: "store (lambda_handler m cfg e2 ev2 ctx2 (store (lambda_handler m cfg e1 ev1 ctx1 s))) =
           (store (lambda_handler m cfg e1 ev1 ctx1 s))((b, storage_key m d) \<mapsto>
              \<lparr>body = json_dumps_indent2 e2 p2, content_type = ''application/json''\<rparr>)"
    by auto
  show ?thesis
    using b s1 s2 by (simp add: get_object_def)
qed

theorem same_day_runs_overwrite_witness:
  "Call_save_to_s3 example_payload ''2024-01-15'' \<in>
     set (trace (lambda_handler Lambda_function example_config
            (example_env (Responded token_granted) (Responded tracks_served))
            no_event no_event empty_store)) \<and>
   getitem (result (lambda_handler Lambda_function example_config
            (example_env (Responded token_granted) (Responded tracks_served))
            no_event no_event empty_store)) ''statusCode'' = Inr (JInt 200) \<and>
   Call_save_to_s3 second_payload ''2024-01-15'' \<in>
     set (trace (lambda_handler Lambda_function example_config
            (example_env (Responded token_granted) (Responded tracks_served_later))
            no_event no_event
            (store (lambda_handler Lambda_function example_config
               (example_env (Responded token_granted) (Responded tracks_served))
               no_event no_event empty_store)))) \<and>
   getitem (result (lambda_handler Lambda_function example_config
            (example_env (Responded token_granted) (Responded tracks_served_later))
            no_event no_event
            (store (lambda_handler Lambda_function example_config
               (example_env (Responded token_granted) (Responded tracks_served))
               no_event no_event empty_store)))) ''statusCode'' = Inr (JInt 200) \<and>
   store (lambda_handler Lambda_function example_config
            (example_env (Responded token_granted) (Responded tracks_served_later))
            no_event no_event
            (store (lambda_handler Lambda_function example_config
               (example_env (Responded token_granted) (Responded tracks_served))
               no_event no_event empty_store))) =
     empty_store((''raw-bucket'', ''2024-01-15/2024-01-15_recent_tracks.json'') \<mapsto>
        \<lparr>body = example_pretty 0 second_payload, content_type = ''application/json''\<rparr>)"
  using same_day_runs_overwrite
          [of example_payload "''2024-01-15''" Lambda_function example_config
              "example_env (Responded token_granted) (Responded tracks_served)"
              no_event no_event empty_store second_payload
              "example_env (Responded token_granted) (Responded tracks_served_later)"
              no_event no_event]
  by (simp add: example_run example_run_later)

text \<open>
  C5, as the code has it. The partition key that the handler computes in step 1, and
  passes to the Writer, is \<open>datetime.now()\<close> formatted with \<open>%Y-%m-%d\<close>: the
  current date in the local time zone of the process. It is the current UTC date when
  that zone has offset 0 (as in the AWS Lambda runtime).
\<close>

theorem partition_key_is_local_date:
  assumes "Call_save_to_s3 payload d \<in> set (trace (lambda_handler m cfg e event context s))"
  shows "d = strftime_Y_m_d (civil_from_days ((posix_time e + utcoffset e) div 86400)) \<and>
         (utcoffset e = 0 \<longrightarrow> d = strftime_Y_m_d (datetime_utcnow e))"
proof -
  have "d = today_date_of e"
    using assms
    by (auto simp: lambda_handler_def Let_def split: sum.splits if_splits prod.splits)
  then show ?thesis
    by (simp add: today_date_of_def datetime_now_def datetime_utcnow_def)
qed

theorem partition_key_is_local_date_witness:
  "Call_save_to_s3 example_payload ''2024-01-15'' \<in>
     set (trace (lambda_handler Lambda_function example_config
            (example_env (Responded token_granted) (Responded tracks_served))
            no_event no_event empty_store)) \<and>
   utcoffset (example_env (Responded token_granted) (Responded tracks_served)) = 0 \<and>
   ''2024-01-15'' =
     strftime_Y_m_d (datetime_utcnow (example_env (Responded token_granted) (Responded tracks_served)))"
  using partition_key_is_local_date
          [of example_payload "''2024-01-15''" Lambda_function example_config
              "example_env (Responded token_granted) (Responded tracks_served)"
              no_event no_event empty_store]
  by (simp add: example_run utc_example)

text \<open>
  C5 as stated fails in a process whose zone is not UTC. At 2024-01-15 23:30:00 UTC,
  one hour ahead of UTC, the run passes the key \<open>2024-01-16\<close> to the Writer, while
  the UTC date is 2024-01-15.
\<close>

theorem local_date_differs_from_utc_counterexample:
  "trace (lambda_handler Lambda_function example_config late_evening_env
            no_event no_event empty_store) =
     [Call_get_spotify_token, Call_get_recent_tracks (JStr ''BQD-token''),
      Call_save_to_s3 example_payload ''2024-01-16''] \<and>
   strftime_Y_m_d (datetime_utcnow late_evening_env) = ''2024-01-15''"
  by (simp add: late_evening_run_trace utc_late_evening)

text \<open>
  C4, as the code has it. When the recently-played endpoint answers with a status from
  400 to 599, \<open>get_recent_tracks\<close> raises \<open>Exception\<close> with the text
  \<open>Failed to fetch recent tracks: \<close> followed by the text of the HTTP error, and a
  run that reaches the Fetcher ends with the catch-all result, without a call of
  \<open>save_to_s3\<close> and with the store as it was.
\<close>

theorem client_or_server_error_is_fatal:
  assumes "recently_played_endpoint e tok TRACKS_LIMIT = Responded resp"
    and "400 \<le> status_code resp" and "status_code resp < 600"
    and "get_spotify_token cfg e = Inr tok" and "\<not> isinstance_dict tok"
  shows "get_recent_tracks e tok =
           Inl (Exc PlainException
                 (''Failed to fetch recent tracks: '' @ str_int (status_code resp) @
                  (if status_code resp < 500 then '' Client Error: '' else '' Server Error: '') @
                  reason resp @ '' for url: '' @ url resp)) \<and>
         trace (lambda_handler m cfg e event context s) =
           [Call_get_spotify_token, Call_get_recent_tracks tok] \<and>
         store (lambda_handler m cfg e event context s) = s \<and>
         result (lambda_handler m cfg e event context s) =
           JDict [(''statusCode'', JInt 500),
                  (''body'', JStr (json_dumps e (JDict [(''error'', JStr
                     (''Failed to fetch recent tracks: '' @ str_int (status_code resp) @
                      (if status_code resp < 500 then '' Client Error: '' else '' Server Error: '') @
                      reason resp @ '' for url: '' @ url resp))])))]"
proof -
  have fetch: "get_recent_tracks e tok =
           Inl (Exc PlainException
                 (''Failed to fetch recent tracks: '' @ str_int (status_code resp) @
                  (if status_code resp < 500 then '' Client Error: '' else '' Server Error: '') @
                  reason resp @ '' for url: '' @ url resp))"
    using assms(1,2,3)
    by (simp add: get_recent_tracks_def get_recent_tracks_body_def raise_for_status_def)
  show ?thesis
    using assms(4,5)
    by (simp add: fetch lambda_handler_def handler_except_def)
qed

theorem client_or_server_error_is_fatal_witness:
  "recently_played_endpoint (example_env (Responded token_granted) (Responded tracks_unauthorized))
     (JStr ''BQD-token'') TRACKS_LIMIT = Responded tracks_unauthorized \<and>
   400 \<le> status_code tracks_unauthorized \<and> status_code tracks_unauthorized < 600 \<and>
   get_spotify_token example_config
     (example_env (Responded token_granted) (Responded tracks_unauthorized)) =
     Inr (JStr ''BQD-token'') \<and>
   \<not> isinstance_dict (JStr ''BQD-token'') \<and>
   get_recent_tracks (example_env (Responded token_granted) (Responded tracks_unauthorized))
     (JStr ''BQD-token'') =
     Inl (Exc PlainException
           (''Failed to fetch recent tracks: 401 Client Error: Unauthorized for url: '' @
            recently_played_url)) \<and>
   trace (lambda_handler Lambda_function example_config
            (example_env (Responded token_granted) (Responded tracks_unauthorized))
            no_event no_event empty_store) =
     [Call_get_spotify_token, Call_get_recent_tracks (JStr ''BQD-token'')] \<and>
   store (lambda_handler Lambda_function example_config
            (example_env (Responded token_granted) (Responded tracks_unauthorized))
            no_event no_event empty_store) = empty_store"
  using client_or_server_error_is_fatal
          [of "example_env (Responded token_granted) (Responded tracks_unauthorized)"
              "JStr ''BQD-token''" tracks_unauthorized example_config
              Lambda_function no_event no_event empty_store]
  by (simp add: token_granted_example tracks_unauthorized_def error_401_text)

text \<open>
  C4 as stated fails for a status that is neither 2xx nor 4xx/5xx:
  \<open>raise_for_status\<close> lets it pass. With status 300 and a JSON body,
  \<open>get_recent_tracks\<close> returns the body and the run writes it to the store.
\<close>

theorem status_300_is_not_fatal_counterexample:
  "recently_played_endpoint (example_env (Responded token_granted) (Responded tracks_multiple_choices))
     (JStr ''BQD-token'') TRACKS_LIMIT = Responded tracks_multiple_choices \<and>
   status_code tracks_multiple_choices = 300 \<and>
   get_recent_tracks (example_env (Responded token_granted) (Responded tracks_multiple_choices))
     (JStr ''BQD-token'') = Inr example_payload \<and>
   trace (lambda_handler Lambda_function example_config
            (example_env (Responded token_granted) (Responded tracks_multiple_choices))
            no_event no_event empty_store) =
     [Call_get_spotify_token, Call_get_recent_tracks (JStr ''BQD-token''),
      Call_save_to_s3 example_payload ''2024-01-15''] \<and>
   get_object (store (lambda_handler Lambda_function example_config
            (example_env (Responded token_granted) (Responded tracks_multiple_choices))
            no_event no_event empty_store))
     ''raw-bucket'' ''2024-01-15/2024-01-15_recent_tracks.json'' =
     Some \<lparr>body = example_pretty 0 example_payload, content_type = ''application/json''\<rparr>"
proof -
  have "status_code tracks_multiple_choices = 300"
    by (simp add: tracks_multiple_choices_def)
  then show ?thesis
    by (simp add: multiple_choices_run tracks_multiple_choices_example get_object_def)
qed

text \<open>
  C6. The handler tells a failed token step from a token by \<open>isinstance(access_token, dict)\<close>
  and returns such a dict as it is. When the token endpoint answers 200 with
  \<open>{"access_token": {}}\<close>, \<open>get_spotify_token\<close> returns the empty dict and the
  handler returns it: a result without a \<open>statusCode\<close> key.
\<close>

theorem token_object_result_lacks_statusCode:
  "get_spotify_token example_config
     (example_env (Responded token_with_object) (Responded tracks_served)) = Inr (JDict []) \<and>
   lambda_handler Lambda_function example_config
     (example_env (Responded token_with_object) (Responded tracks_served))
     no_event no_event empty_store =
     \<lparr>result = JDict [], trace = [Call_get_spotify_token], store = empty_store\<rparr> \<and>
   getitem (JDict []) ''statusCode'' = Inl (Exc KeyError (quoted ''statusCode''))"
proof -
  have tok: "get_spotify_token example_config
     (example_env (Responded token_with_object) (Responded tracks_served)) = Inr (JDict [])"
    by (simp add: get_spotify_token_def get_spotify_token_body_def token_with_object_def
        response_json_def)
  then show ?thesis
    by (simp add: lambda_handler_def)
qed

text \<open>
  That is the only way to a result without the key: the handler always returns a dict,
  and the dict has a \<open>statusCode\<close> unless the token step returned a dict without one.
\<close>

lemma map_of_setitem:
  "map_of (setitem kvs k v) k' = (if k' = k then Some v else map_of kvs k')"
  by (induction kvs) auto

lemma handler_result_is_dict:
  "isinstance_dict (result (lambda_handler m cfg e event context s))"
  by (simp add: lambda_handler_def Let_def handler_except_def
      split: sum.splits prod.splits)

lemma handler_result_has_statusCode:
  assumes "\<And>tok. get_spotify_token cfg e = Inr tok \<Longrightarrow> isinstance_dict tok \<Longrightarrow>
             \<exists>v. getitem tok ''statusCode'' = Inr v"
  shows "\<exists>v. getitem (result (lambda_handler m cfg e event context s)) ''statusCode'' = Inr v"
proof (cases "get_spotify_token cfg e")
  case (Inl x)
  then show ?thesis
    by (simp add: lambda_handler_def handler_except_def)
next
  case (Inr tok)
  show ?thesis
  proof (cases "isinstance_dict tok")
    case True
    with Inr assms show ?thesis
      by (simp add: lambda_handler_def)
  next
    case False
    with Inr show ?thesis
      by (auto simp: lambda_handler_def Let_def handler_except_def map_of_setitem
               dest!: save_to_s3_Inr split: sum.splits prod.splits)
  qed
qed

end
